theory Spec2Isabelle
  imports Complex_Main
begin

section \<open>Data model\<close>

text \<open>
  The program (\<^verbatim>\<open>estimate_coding_time.py\<close>) reads the output of \<^verbatim>\<open>git log\<close>, builds
  one record per commit, groups the records into sessions and estimates a duration for
  each session.

  A \<^verbatim>\<open>datetime\<close> is a point on the microsecond grid of the naive calendar; it is
  modelled by its number of microseconds from a fixed origin, and a \<^verbatim>\<open>timedelta\<close>
  (the difference of two of them) by a number of microseconds. Python's \<^verbatim>\<open>int\<close> is
  unbounded: \<open>int\<close>. The value of a Python \<^verbatim>\<open>float\<close> is modelled by a \<open>real\<close>: the
  arithmetic of the model is exact, the rounding of binary floating point is not part of
  it. What can raise is part of it: the conversion of an \<^verbatim>\<open>int\<close> to a \<^verbatim>\<open>float\<close>, made
  when the two are multiplied, raises \<^verbatim>\<open>OverflowError\<close> beyond the range of floats.
\<close>

type_synonym datetime = int
type_synonym timedelta = int

text \<open>The dictionary built at lines 44-48, with its three keys.\<close>

record commit =
  timestamp :: datetime
  hash :: string
  lines_changed :: int

text \<open>The exceptions the program can meet. None of them is caught but \<^verbatim>\<open>ValueError\<close> at line 60.\<close>

datatype py_error = CalledProcessError | ValueError | OverflowError | IndexError | OSError

subsection \<open>Configuration (lines 6-8)\<close>

definition MAX_GAP_MINUTES :: int where
  "MAX_GAP_MINUTES = 90"

definition TIME_PER_LINE_MINUTES :: real where
  "TIME_PER_LINE_MINUTES = 0.02"

definition PRE_COMMIT_LINE_FACTOR :: int where
  "PRE_COMMIT_LINE_FACTOR = 1"

subsection \<open>Built-ins the program uses\<close>

text \<open>\<^verbatim>\<open>timedelta.total_seconds()\<close>.\<close>

definition total_seconds :: "timedelta \<Rightarrow> real" where
  "total_seconds td = real_of_int td / 1000000"

text \<open>
  The conversion of an \<^verbatim>\<open>int\<close> to a \<^verbatim>\<open>float\<close>, as \<^verbatim>\<open>int * float\<close> and \<^verbatim>\<open>float * int\<close> make it.
  The largest float is \<open>2 ^ 1024 - 2 ^ 971\<close>; the conversion rounds to nearest, ties to
  even, so an integer converts when its absolute value is below \<open>2 ^ 1024 - 2 ^ 970\<close>, and
  from there on the conversion raises \<^verbatim>\<open>OverflowError\<close> (int too large to convert to float).
\<close>

definition float_overflows :: "int \<Rightarrow> bool" where
  "float_overflows n = (2 ^ 1024 - 2 ^ 970 \<le> \<bar>n\<bar>)"

definition float_of_int :: "int \<Rightarrow> py_error + real" where
  "float_of_int n = (if float_overflows n then Inl OverflowError else Inr (real_of_int n))"

text \<open>
  \<^verbatim>\<open>xs[i]\<close> on a list: an index below zero counts from the end, and an index outside the
  list raises \<^verbatim>\<open>IndexError\<close>.
\<close>

definition getitem :: "'a list \<Rightarrow> int \<Rightarrow> py_error + 'a" where
  "getitem xs i =
     (if 0 \<le> i \<and> i < int (length xs) then Inr (xs ! nat i)
      else if i < 0 \<and> - int (length xs) \<le> i then Inr (xs ! nat (int (length xs) + i))
      else Inl IndexError)"

section \<open>Session grouper (lines 67-97)\<close>

text \<open>
  Line 83: \<^verbatim>\<open>time_diff = (commit['timestamp'] - prev_commit['timestamp']).total_seconds() / 60.0\<close>.
  Line 85 compares it with \<open>MAX_GAP_MINUTES\<close>. The program does both in floating point;
  the two divisions round to nearest, 5400 and 90 are floats, and a difference of one
  microsecond is far above the spacing of the floats there, so the program's comparison
  is true exactly when the exact one is.
\<close>

definition time_diff :: "commit \<Rightarrow> commit \<Rightarrow> real" where
  "time_diff prev_commit commit =
     total_seconds (timestamp commit - timestamp prev_commit) / 60"

text \<open>
  The \<^verbatim>\<open>for i, commit in enumerate(commits)\<close> loop of lines 77-91. The arguments are the
  whole list \<open>commits\<close> (read at \<open>i - 1\<close> by line 82), the index \<open>i\<close>, the elements still
  to visit, and the two variables the loop updates, \<open>sessions\<close> and \<open>current_session\<close>.
\<close>

fun group_loop ::
  "commit list \<Rightarrow> nat \<Rightarrow> commit list \<Rightarrow> commit list list \<times> commit list
     \<Rightarrow> py_error + (commit list list \<times> commit list)" where
  "group_loop commits i [] (sessions, current_session) = Inr (sessions, current_session)"
| "group_loop commits i (commit # rest) (sessions, current_session) =
     (if i = 0 then group_loop commits (Suc i) rest (sessions, current_session @ [commit])
      else
        case getitem commits (int i - 1) of
          Inl e \<Rightarrow> Inl e
        | Inr prev_commit \<Rightarrow>
            if time_diff prev_commit commit \<le> real_of_int MAX_GAP_MINUTES
            then group_loop commits (Suc i) rest (sessions, current_session @ [commit])
            else group_loop commits (Suc i) rest (sessions @ [current_session], [commit]))"

definition group_commits_into_sessions :: "commit list \<Rightarrow> py_error + commit list list" where
  "group_commits_into_sessions commits =
     (case group_loop commits 0 commits ([], []) of
        Inl e \<Rightarrow> Inl e
      | Inr (sessions, current_session) \<Rightarrow>
          Inr (if current_session \<noteq> [] then sessions @ [current_session] else sessions))"

section \<open>Time estimator (lines 99-116)\<close>

text \<open>
  \<^verbatim>\<open>session[0]\<close> is read twice (lines 108 and 113) and \<^verbatim>\<open>session[-1]\<close> once; each read
  can raise \<^verbatim>\<open>IndexError\<close>. The guard of line 105 returns 0 for an empty session.
  Line 114 multiplies the \<^verbatim>\<open>int\<close> \<open>first_commit_lines\<close> by a float, and the product by the
  \<^verbatim>\<open>int\<close> \<open>PRE_COMMIT_LINE_FACTOR\<close>: each \<^verbatim>\<open>int\<close> is converted to a float first, which can
  raise \<^verbatim>\<open>OverflowError\<close>. (A product or a sum of floats raises nothing.)
\<close>

definition estimate_session_time :: "commit list \<Rightarrow> py_error + real" where
  "estimate_session_time session =
     (if session = [] then Inr 0
      else
        case getitem session 0 of
          Inl e \<Rightarrow> Inl e
        | Inr first_commit \<Rightarrow>
           (case getitem session (- 1) of
              Inl e \<Rightarrow> Inl e
            | Inr last_commit \<Rightarrow>
               (let start_time = timestamp first_commit;
                    end_time = timestamp last_commit;
                    direct_time_minutes = total_seconds (end_time - start_time) / 60
                in case getitem session 0 of
                     Inl e \<Rightarrow> Inl e
                   | Inr first_commit' \<Rightarrow>
                      (let first_commit_lines = lines_changed first_commit' in
                       case float_of_int first_commit_lines of
                         Inl e \<Rightarrow> Inl e
                       | Inr lines_as_float \<Rightarrow>
                          (case float_of_int PRE_COMMIT_LINE_FACTOR of
                             Inl e \<Rightarrow> Inl e
                           | Inr factor_as_float \<Rightarrow>
                              (let pre_commit_estimate =
                                     lines_as_float * TIME_PER_LINE_MINUTES * factor_as_float
                               in Inr (direct_time_minutes + pre_commit_estimate)))))))"

section \<open>History extractor (lines 10-65)\<close>

subsection \<open>Strings\<close>

text \<open>
  A Python \<^verbatim>\<open>str\<close> is a sequence of code points. The model is \<open>string\<close>, whose characters
  are the code points below 256; the classifications below are Python's on that range.
  Whitespace (\<^verbatim>\<open>str.isspace\<close>, \<^verbatim>\<open>str.strip\<close>, the pattern \<^verbatim>\<open>\s\<close>): TAB, LF, VT, FF, CR,
  the separators 0x1C-0x1F, the blank, NEL (0x85) and the no-break space (0xA0).
\<close>

definition isspace :: "char \<Rightarrow> bool" where
  "isspace c = (c \<in> set [CHR 0x09, CHR 0x0A, CHR 0x0B, CHR 0x0C, CHR 0x0D, CHR 0x1C, CHR 0x1D,
                          CHR 0x1E, CHR 0x1F, CHR 0x20, CHR 0x85, CHR 0xA0])"

text \<open>The decimal digits (the pattern \<^verbatim>\<open>\d\<close>, and what \<^verbatim>\<open>int\<close> reads): 0 to 9.\<close>

definition is_decimal :: "char \<Rightarrow> bool" where
  "is_decimal c = (c \<in> set ''0123456789'')"

text \<open>
  The characters \<^verbatim>\<open>str.isdigit\<close> accepts: the decimal digits, and the superscripts
  two, three and one (0xB2, 0xB3, 0xB9), which are digits and not decimal digits.
\<close>

definition is_digit_char :: "char \<Rightarrow> bool" where
  "is_digit_char c = (is_decimal c \<or> c \<in> set [CHR 0xB2, CHR 0xB3, CHR 0xB9])"

text \<open>The character class \<^verbatim>\<open>[0-9a-f]\<close>.\<close>

definition is_hex :: "char \<Rightarrow> bool" where
  "is_hex c = (c \<in> set ''0123456789abcdef'')"

text \<open>\<^verbatim>\<open>s.strip()\<close>: whitespace removed at both ends.\<close>

definition str_strip :: "string \<Rightarrow> string" where
  "str_strip s = rev (dropWhile isspace (rev (dropWhile isspace s)))"

text \<open>
  \<^verbatim>\<open>s.split(sep)\<close> for a separator of one character: the pieces between the occurrences
  of \<open>sep\<close>, empty pieces included; never an empty list.
\<close>

fun str_split :: "char \<Rightarrow> string \<Rightarrow> string list" where
  "str_split sep [] = [[]]"
| "str_split sep (c # cs) =
     (if c = sep then [] # str_split sep cs
      else (case str_split sep cs of
              [] \<Rightarrow> [[c]]
            | piece # pieces \<Rightarrow> (c # piece) # pieces))"

text \<open>\<^verbatim>\<open>s.isdigit()\<close>: at least one character, and every character a digit.\<close>

definition isdigit :: "string \<Rightarrow> bool" where
  "isdigit s = (s \<noteq> [] \<and> list_all is_digit_char s)"

text \<open>
  \<^verbatim>\<open>int(s)\<close> on a string: the value of a non-empty string of decimal digits, and
  \<^verbatim>\<open>ValueError\<close> on every other string that reaches it. (Python's \<^verbatim>\<open>int\<close> also reads a
  sign, blanks around the number and underscores between digits; the program calls it
  only on a string matched by \<^verbatim>\<open>\d+\<close> or accepted by \<^verbatim>\<open>isdigit\<close>, which has none of
  them.)

  The interpreter limits the number of digits \<^verbatim>\<open>int\<close> reads: \<open>max_str_digits\<close> is
  \<^verbatim>\<open>sys.get_int_max_str_digits()\<close>, 4300 unless it was set, and 0 when there is no limit (as
  in the interpreters that have none). It is a parameter of the model. A string of more
  than 640 digits (below that the limit is not looked at) and of more than
  \<open>max_str_digits\<close> digits raises \<^verbatim>\<open>ValueError\<close>; leading zeros are digits as the others.
\<close>

definition digit_value :: "char \<Rightarrow> int" where
  "digit_value c = int (of_char c) - 48"

definition decimal_value :: "string \<Rightarrow> int" where
  "decimal_value s = foldl (\<lambda>n c. 10 * n + digit_value c) 0 s"

definition over_limit :: "nat \<Rightarrow> string \<Rightarrow> bool" where
  "over_limit max_str_digits s =
     (640 < length s \<and> 0 < max_str_digits \<and> max_str_digits < length s)"

definition py_int :: "nat \<Rightarrow> string \<Rightarrow> py_error + int" where
  "py_int max_str_digits s =
     (if s \<noteq> [] \<and> list_all is_decimal s \<and> \<not> over_limit max_str_digits s
      then Inr (decimal_value s)
      else Inl ValueError)"

text \<open>
  Line 35: \<^verbatim>\<open>time_hash_pattern = re.compile(r'^(\d+)\s+([0-9a-f]+)$')\<close>, and
  \<^verbatim>\<open>time_hash_pattern.match(line)\<close> with its two groups. The three classes are disjoint,
  so the match, when there is one, takes the longest run of each; \<^verbatim>\<open>$\<close> matches at the
  end of the string or before a line feed that ends it.
\<close>

definition match_time_hash :: "string \<Rightarrow> (string \<times> string) option" where
  "match_time_hash line =
     (let epoch_str = takeWhile is_decimal line;
          after_epoch = dropWhile is_decimal line;
          blanks = takeWhile isspace after_epoch;
          after_blanks = dropWhile isspace after_epoch;
          commit_hash = takeWhile is_hex after_blanks;
          rest = dropWhile is_hex after_blanks
      in if epoch_str \<noteq> [] \<and> blanks \<noteq> [] \<and> commit_hash \<noteq> [] \<and> (rest = [] \<or> rest = [CHR 0x0A])
         then Some (epoch_str, commit_hash)
         else None)"

subsection \<open>The statistics line (lines 57-61)\<close>

text \<open>The body of the \<^verbatim>\<open>try\<close>: the two conditional expressions, in order.\<close>

definition read_counts :: "nat \<Rightarrow> string \<Rightarrow> string \<Rightarrow> py_error + (int \<times> int)" where
  "read_counts max_str_digits added_str removed_str =
     (case (if isdigit added_str then py_int max_str_digits added_str else Inr 0) of
        Inl e \<Rightarrow> Inl e
      | Inr added \<Rightarrow>
         (case (if isdigit removed_str then py_int max_str_digits removed_str else Inr 0) of
            Inl e \<Rightarrow> Inl e
          | Inr removed \<Rightarrow> Inr (added, removed)))"

text \<open>The \<^verbatim>\<open>try\<close> with its handler: \<^verbatim>\<open>except ValueError: added, removed = 0, 0\<close>.\<close>

definition added_removed :: "nat \<Rightarrow> string \<Rightarrow> string \<Rightarrow> py_error + (int \<times> int)" where
  "added_removed max_str_digits added_str removed_str =
     (case read_counts max_str_digits added_str removed_str of
        Inl e \<Rightarrow> (if e = ValueError then Inr (0, 0) else Inl e)
      | Inr counts \<Rightarrow> Inr counts)"

subsection \<open>The loop over the lines (lines 37-63)\<close>

text \<open>
  The state of the loop is the list \<open>commits\<close> and the variable \<open>current_commit\<close>, which
  is \<^verbatim>\<open>None\<close> or refers to a dictionary that is also an element of \<open>commits\<close>: the model
  keeps the position of that element, so that the update of line 63 is seen through the
  list, as it is in the program. \<open>fromtimestamp\<close> is \<^verbatim>\<open>datetime.fromtimestamp\<close>, which
  depends on the time zone of the process and raises on an epoch outside its range: a
  parameter, as \<open>max_str_digits\<close> is.
\<close>

definition parse_line ::
  "nat \<Rightarrow> (int \<Rightarrow> py_error + datetime) \<Rightarrow> string \<Rightarrow> commit list \<times> nat option
     \<Rightarrow> py_error + (commit list \<times> nat option)" where
  "parse_line max_str_digits fromtimestamp line st =
     (case st of (commits, current_commit) \<Rightarrow>
        (case match_time_hash line of
           Some (epoch_str, commit_hash) \<Rightarrow>
             (case py_int max_str_digits epoch_str of
                Inl e \<Rightarrow> Inl e
              | Inr epoch \<Rightarrow>
                 (case fromtimestamp epoch of
                    Inl e \<Rightarrow> Inl e
                  | Inr ts \<Rightarrow>
                      Inr (commits @ [\<lparr>timestamp = ts, hash = commit_hash, lines_changed = 0\<rparr>],
                           Some (length commits))))
         | None \<Rightarrow>
             (case str_split (CHR 0x09) (str_strip line) of
                [added_str, removed_str, path] \<Rightarrow>
                  (case current_commit of
                     None \<Rightarrow> Inr st
                   | Some k \<Rightarrow>
                      (case added_removed max_str_digits added_str removed_str of
                         Inl e \<Rightarrow> Inl e
                       | Inr (added, removed) \<Rightarrow>
                           Inr (commits[k := (commits ! k)
                                  \<lparr>lines_changed := lines_changed (commits ! k) + (added + removed)\<rparr>],
                                current_commit)))
              | _ \<Rightarrow> Inr st)))"

fun parse_lines ::
  "nat \<Rightarrow> (int \<Rightarrow> py_error + datetime) \<Rightarrow> string list \<Rightarrow> commit list \<times> nat option
     \<Rightarrow> py_error + (commit list \<times> nat option)" where
  "parse_lines max_str_digits fromtimestamp [] st = Inr st"
| "parse_lines max_str_digits fromtimestamp (line # lines) st =
     (case parse_line max_str_digits fromtimestamp line st of
        Inl e \<Rightarrow> Inl e
      | Inr st' \<Rightarrow> parse_lines max_str_digits fromtimestamp lines st')"

text \<open>
  \<open>run_result\<close> is the outcome of \<^verbatim>\<open>subprocess.run(cmd, capture_output=True, text=True,
  check=True)\<close>: the exception it raised, or the text of the standard output.
\<close>

definition get_git_commit_data ::
  "nat \<Rightarrow> (int \<Rightarrow> py_error + datetime) \<Rightarrow> py_error + string \<Rightarrow> py_error + commit list" where
  "get_git_commit_data max_str_digits fromtimestamp run_result =
     (case run_result of
        Inl e \<Rightarrow> Inl e
      | Inr stdout \<Rightarrow>
         (case parse_lines max_str_digits fromtimestamp
                 (str_split (CHR 0x0A) (str_strip stdout)) ([], None) of
            Inl e \<Rightarrow> Inl e
          | Inr (commits, current_commit) \<Rightarrow> Inr commits))"

section \<open>The program (lines 118-137)\<close>

text \<open>
  What \<^verbatim>\<open>main\<close> does is recorded as a list of events: each \<^verbatim>\<open>print\<close>, and each call of
  one of the three functions above. A printed literal is kept as its text; a formatted
  line is kept as the values it interpolates (the formatting of a float to one decimal
  is not modelled):
  \<^item> \<open>Found_commits n\<close> is \<^verbatim>\<open>Found {n} commits.\<close>
  \<^item> \<open>Grouped_into m\<close> is \<^verbatim>\<open>Grouped into {m} sessions.\<close>
  \<^item> \<open>Session_line i n t\<close> is \<^verbatim>\<open>Session {i}: {n} commits, ~{t:.1f} minutes estimated\<close>
  \<^item> \<open>Total_hours h\<close> is \<^verbatim>\<open>Total Estimated Coding Time: ~{h:.1f} hours\<close>
\<close>

datatype printed =
    Text string
  | Found_commits nat
  | Grouped_into nat
  | Session_line nat nat real
  | Total_hours real

datatype event =
    Print printed
  | Call_get_git_commit_data
  | Call_group_commits_into_sessions
  | Call_estimate_session_time

text \<open>
  The loop of lines 130-133 over \<^verbatim>\<open>enumerate(sessions, start=1)\<close>: the index, the sessions
  still to visit, \<open>total_minutes\<close> and the events so far. It returns the events with the
  total, or with the exception that stopped it.
\<close>

fun sessions_loop ::
  "nat \<Rightarrow> commit list list \<Rightarrow> real \<Rightarrow> event list \<Rightarrow> (py_error + real) \<times> event list" where
  "sessions_loop i [] total_minutes events = (Inr total_minutes, events)"
| "sessions_loop i (session # rest) total_minutes events =
     (case estimate_session_time session of
        Inl e \<Rightarrow> (Inl e, events @ [Call_estimate_session_time])
      | Inr session_time \<Rightarrow>
          sessions_loop (Suc i) rest (total_minutes + session_time)
            (events @ [Call_estimate_session_time,
                       Print (Session_line i (length session) session_time)]))"

text \<open>
  \<^verbatim>\<open>main\<close>: the events, and the exception that ended the program if one did.
\<close>

definition main ::
  "nat \<Rightarrow> (int \<Rightarrow> py_error + datetime) \<Rightarrow> py_error + string
     \<Rightarrow> event list \<times> py_error option" where
  "main max_str_digits fromtimestamp run_result =
     (let events = [Print (Text ''Gathering commit data...''), Call_get_git_commit_data] in
      case get_git_commit_data max_str_digits fromtimestamp run_result of
        Inl e \<Rightarrow> (events, Some e)
      | Inr commits \<Rightarrow>
          if commits = [] then (events @ [Print (Text ''No commit data found.'')], None)
          else
            (let events = events @ [Print (Found_commits (length commits)),
                                    Call_group_commits_into_sessions] in
             case group_commits_into_sessions commits of
               Inl e \<Rightarrow> (events, Some e)
             | Inr sessions \<Rightarrow>
                (let events = events @ [Print (Grouped_into (length sessions))] in
                 case sessions_loop 1 sessions 0 events of
                   (Inl e, events) \<Rightarrow> (events, Some e)
                 | (Inr total_minutes, events) \<Rightarrow>
                    (let events = events @ [Print (Text (CHR 0x0A # ''--- Summary ---''))];
                         hours = total_minutes / 60
                     in (events @ [Print (Total_hours hours)], None)))))"

section \<open>Reference definitions\<close>

text \<open>
  The sessions of a history, written by recursion on the list rather than with the
  loop's accumulators: \<open>sessions_from prev rest\<close> are the sessions of \<open>prev # rest\<close>.
  The grouper is proved equal to it below, and the properties of the grouper are proved
  on it.
\<close>

fun sessions_from :: "commit \<Rightarrow> commit list \<Rightarrow> commit list list" where
  "sessions_from prev [] = [[prev]]"
| "sessions_from prev (c # cs) =
     (if time_diff prev c \<le> real_of_int MAX_GAP_MINUTES
      then (prev # hd (sessions_from c cs)) # tl (sessions_from c cs)
      else [prev] # sessions_from c cs)"

definition sessions_of :: "commit list \<Rightarrow> commit list list" where
  "sessions_of commits = (case commits of [] \<Rightarrow> [] | c # cs \<Rightarrow> sessions_from c cs)"

text \<open>
  What a statistics line with the count fields \<open>added_str\<close> and \<open>removed_str\<close> adds to
  \<^verbatim>\<open>lines_changed\<close>: each field counts on its own, its value when it is a string of digits
  and zero when it is not; and the line counts zero when \<^verbatim>\<open>int\<close> rejects a field that
  \<^verbatim>\<open>isdigit\<close> accepts (a digit that is not a decimal digit, or more digits than the
  interpreter's limit), which is where \<^verbatim>\<open>int\<close> raises and the handler of line 60 sets both
  counts to zero.
\<close>

definition int_rejects :: "nat \<Rightarrow> string \<Rightarrow> bool" where
  "int_rejects max_str_digits s =
     (isdigit s \<and> (\<not> list_all is_decimal s \<or> over_limit max_str_digits s))"

definition line_count :: "nat \<Rightarrow> string \<Rightarrow> string \<Rightarrow> int" where
  "line_count max_str_digits added_str removed_str =
     (if int_rejects max_str_digits added_str \<or> int_rejects max_str_digits removed_str
      then 0
      else (if isdigit added_str then decimal_value added_str else 0)
           + (if isdigit removed_str then decimal_value removed_str else 0))"

section \<open>Example data\<close>

text \<open>
  \<^verbatim>\<open>datetime.fromtimestamp\<close> as CPython 3.11 has it on Linux with a 64-bit \<^verbatim>\<open>time_t\<close>, in a
  process whose local time is UTC; the origin of the model's \<open>datetime\<close> is put at the
  epoch. It returns from the second day of year 1 to the end of year 9999. Outside, it
  raises \<^verbatim>\<open>OverflowError\<close> when the epoch is not a \<^verbatim>\<open>time_t\<close>, \<^verbatim>\<open>OSError\<close> when the C library
  cannot break the time down (the year does not fit), and \<^verbatim>\<open>ValueError\<close> (year out of
  range) otherwise.
\<close>

definition fromtimestamp_utc :: "int \<Rightarrow> py_error + datetime" where
  "fromtimestamp_utc epoch =
     (if epoch < - (2 ^ 63) \<or> 2 ^ 63 \<le> epoch then Inl OverflowError
      else if epoch < - 67768040609740800 \<or> 67768036191676800 \<le> epoch then Inl OSError
      else if epoch < - 62135510400 \<or> 253402300800 \<le> epoch then Inl ValueError
      else Inr (epoch * 1000000))"

text \<open>A statistics line of \<^verbatim>\<open>--numstat\<close>: the two counts and the path, separated by tabs.\<close>

definition numstat_line :: "string \<Rightarrow> string \<Rightarrow> string \<Rightarrow> string" where
  "numstat_line added_str removed_str path =
     added_str @ [CHR 0x09] @ removed_str @ [CHR 0x09] @ path"

text \<open>A commit made \<open>epoch\<close> seconds after the origin that changed \<open>n\<close> lines.\<close>

definition commit_at :: "int \<Rightarrow> int \<Rightarrow> commit" where
  "commit_at epoch n = \<lparr>timestamp = epoch * 1000000, hash = ''a'', lines_changed = n\<rparr>"

text \<open>
  An output of \<^verbatim>\<open>git log --reverse --pretty=format:'%ct %H' --numstat\<close>: three commits, at
  0, 1000 and 10000 seconds, that change 50, 10 and 5 lines.
\<close>

definition example_stdout :: string where
  "example_stdout =
     ''0 a'' @ [CHR 0x0A] @ numstat_line ''50'' ''0'' ''x'' @ [CHR 0x0A] @
     ''1000 a'' @ [CHR 0x0A] @ numstat_line ''4'' ''6'' ''x'' @ [CHR 0x0A] @
     ''10000 a'' @ [CHR 0x0A] @ numstat_line ''5'' ''0'' ''x'' @ [CHR 0x0A]"

section \<open>The grouper computes the sessions of the history\<close>

lemma sessions_from_not_Nil: "sessions_from p cs \<noteq> []"
  by (cases cs) auto

lemma sessions_from_shape: "\<exists>s ss. sessions_from p cs = (p # s) # ss"
  by (cases cs) auto

lemma sessions_from_Cons:
  "sessions_from c cs = (c # t) # ts \<Longrightarrow>
   sessions_from p (c # cs) =
     (if time_diff p c \<le> real_of_int MAX_GAP_MINUTES then (p # c # t) # ts
      else [p] # (c # t) # ts)"
  by simp

lemma sessions_of_Cons_Cons:
  "sessions_of (p # y # ys) =
     (if time_diff p y \<le> real_of_int MAX_GAP_MINUTES
      then (p # hd (sessions_of (y # ys))) # tl (sessions_of (y # ys))
      else [p] # sessions_of (y # ys))"
  by (simp add: sessions_of_def)

text \<open>Line 82 reads the element before position \<open>i\<close>, which exists from the second round on.\<close>

lemma getitem_before:
  "pre \<noteq> [] \<Longrightarrow> getitem (pre @ rest) (int (length pre) - 1) = Inr (last pre)"
  by (cases pre rule: rev_cases) (auto simp: getitem_def nth_append)

text \<open>
  The invariant of the loop, after the elements \<open>pre\<close> and before the elements \<open>rest\<close>:
  the loop ends without an exception, \<open>current_session\<close> is not empty, and the closed
  sessions followed by the current one are the sessions seen so far, the last of them
  continued by the first session of what remains.
\<close>

lemma group_loop_sessions_from:
  "pre \<noteq> [] \<Longrightarrow>
   \<exists>ss' cur'.
      group_loop (pre @ rest) (length pre) rest (ss, cur0 @ [last pre]) = Inr (ss', cur')
      \<and> cur' \<noteq> []
      \<and> ss' @ [cur'] =
          ss @ (cur0 @ hd (sessions_from (last pre) rest)) # tl (sessions_from (last pre) rest)"
proof (induction rest arbitrary: pre ss cur0)
  case Nil
  then show ?case by simp
next
  case (Cons c cs)
  have app: "pre @ c # cs = (pre @ [c]) @ cs" by simp
  have len: "Suc (length pre) = length (pre @ [c])" by simp
  have ne: "pre @ [c] \<noteq> []" by simp
  show ?case
  proof (cases "time_diff (last pre) c \<le> real_of_int MAX_GAP_MINUTES")
    case True
    from Cons.IH[OF ne, of ss "cur0 @ [last pre]"] obtain ss' cur' where
      "group_loop ((pre @ [c]) @ cs) (length (pre @ [c])) cs (ss, (cur0 @ [last pre]) @ [c])
         = Inr (ss', cur')"
      "cur' \<noteq> []"
      "ss' @ [cur'] =
         ss @ ((cur0 @ [last pre]) @ hd (sessions_from c cs)) # tl (sessions_from c cs)"
      by auto
    with True Cons.prems show ?thesis
      using getitem_before[OF Cons.prems, of "c # cs"]
      by (simp only: group_loop.simps app[symmetric] len[symmetric]) auto
  next
    case False
    from Cons.IH[OF ne, of "ss @ [cur0 @ [last pre]]" "[]"] obtain ss' cur' where
      "group_loop ((pre @ [c]) @ cs) (length (pre @ [c])) cs (ss @ [cur0 @ [last pre]], [c])
         = Inr (ss', cur')"
      "cur' \<noteq> []"
      "ss' @ [cur'] =
         (ss @ [cur0 @ [last pre]]) @ hd (sessions_from c cs) # tl (sessions_from c cs)"
      by auto
    with False Cons.prems show ?thesis
      using getitem_before[OF Cons.prems, of "c # cs"] sessions_from_not_Nil[of c cs]
      by (simp only: group_loop.simps app[symmetric] len[symmetric]) auto
  qed
qed

lemma group_commits_into_sessions_eq:
  "group_commits_into_sessions commits = Inr (sessions_of commits)"
proof (cases commits)
  case Nil
  then show ?thesis by (simp add: group_commits_into_sessions_def sessions_of_def)
next
  case (Cons c cs)
  from group_loop_sessions_from[of "[c]" cs "[]" "[]"] obtain ss' cur' where
    "group_loop (c # cs) (Suc 0) cs ([], [c]) = Inr (ss', cur')" "cur' \<noteq> []"
    "ss' @ [cur'] = hd (sessions_from c cs) # tl (sessions_from c cs)"
    by auto
  with Cons show ?thesis
    using sessions_from_not_Nil[of c cs]
    by (simp add: group_commits_into_sessions_def sessions_of_def)
qed

subsection \<open>Properties of the sessions\<close>

lemma concat_sessions_from: "concat (sessions_from p cs) = p # cs"
proof (induction cs arbitrary: p)
  case Nil
  then show ?case by simp
next
  case (Cons c cs)
  obtain s ss where "sessions_from c cs = (c # s) # ss" using sessions_from_shape by blast
  with Cons[of c] show ?case by auto
qed

lemma sessions_from_no_empty: "[] \<notin> set (sessions_from p cs)"
proof (induction cs arbitrary: p)
  case Nil
  then show ?case by simp
next
  case (Cons c cs)
  obtain s ss where "sessions_from c cs = (c # s) # ss" using sessions_from_shape by blast
  with Cons[of c] show ?case by auto
qed

lemma concat_sessions_of: "concat (sessions_of commits) = commits"
  by (cases commits) (simp_all add: sessions_of_def concat_sessions_from)

lemma sessions_of_no_empty: "[] \<notin> set (sessions_of commits)"
  by (cases commits) (simp_all add: sessions_of_def sessions_from_no_empty)

lemma sessions_from_internal:
  "s \<in> set (sessions_from p cs) \<Longrightarrow>
   successively (\<lambda>a b. time_diff a b \<le> real_of_int MAX_GAP_MINUTES) s"
proof (induction cs arbitrary: p s)
  case Nil
  then show ?case by simp
next
  case (Cons c cs)
  obtain t ts where R: "sessions_from c cs = (c # t) # ts" using sessions_from_shape by blast
  have "successively (\<lambda>a b. time_diff a b \<le> real_of_int MAX_GAP_MINUTES) u" if "u \<in> set ((c # t) # ts)" for u
    using Cons.IH[of u c] that R by simp
  then have t: "successively (\<lambda>a b. time_diff a b \<le> real_of_int MAX_GAP_MINUTES) (c # t)"
    and ts: "\<And>u. u \<in> set ts \<Longrightarrow> successively (\<lambda>a b. time_diff a b \<le> real_of_int MAX_GAP_MINUTES) u"
    by auto
  from Cons.prems show ?case
    unfolding sessions_from_Cons[OF R] using t ts by (auto split: if_splits)
qed

lemma sessions_from_boundary:
  "successively (\<lambda>s t. real_of_int MAX_GAP_MINUTES < time_diff (last s) (hd t)) (sessions_from p cs)"
proof (induction cs arbitrary: p)
  case Nil
  then show ?case by simp
next
  case (Cons c cs)
  obtain t ts where R: "sessions_from c cs = (c # t) # ts" using sessions_from_shape by blast
  from Cons.IH[of c] show ?case
    unfolding sessions_from_Cons[OF R] R by (cases ts) auto
qed

lemma sessions_of_join:
  "time_diff a b \<le> real_of_int MAX_GAP_MINUTES \<Longrightarrow>
   \<exists>ss1 s1 s2 ss2. sessions_of (pre @ a # b # post) = ss1 @ [s1 @ a # b # s2] @ ss2
      \<and> concat ss1 @ s1 = pre \<and> s2 @ concat ss2 = post"
proof (induction pre)
  case Nil
  obtain t ts where R: "sessions_from b post = (b # t) # ts" using sessions_from_shape by blast
  from concat_sessions_from[of b post] have T: "t @ concat ts = post" unfolding R by simp
  have E: "sessions_of (a # b # post) = (a # b # t) # ts"
    using Nil R by (simp add: sessions_of_def)
  show ?case
    apply (rule exI[of _ "[]"], rule exI[of _ "[]"], rule exI[of _ t], rule exI[of _ ts])
    using E T by simp
next
  case (Cons p pre)
  from Cons.IH[OF Cons.prems] obtain ss1 s1 s2 ss2 where
    R: "sessions_of (pre @ a # b # post) = ss1 @ [s1 @ a # b # s2] @ ss2"
    and P: "concat ss1 @ s1 = pre" and Q: "s2 @ concat ss2 = post" by blast
  obtain y ys where Y: "pre @ a # b # post = y # ys" by (cases pre) auto
  have L: "sessions_of ((p # pre) @ a # b # post) = sessions_of (p # y # ys)"
    using Y by simp
  have R': "sessions_of (y # ys) = ss1 @ [s1 @ a # b # s2] @ ss2"
    using R unfolding Y .
  show ?case
  proof (cases "time_diff p y \<le> real_of_int MAX_GAP_MINUTES")
    case False
    have "sessions_of ((p # pre) @ a # b # post) = ([p] # ss1) @ [s1 @ a # b # s2] @ ss2"
      unfolding L sessions_of_Cons_Cons R' using False by simp
    moreover have "concat ([p] # ss1) @ s1 = p # pre" using P by simp
    ultimately show ?thesis using Q by blast
  next
    case True
    show ?thesis
    proof (cases ss1)
      case Nil
      have "sessions_of ((p # pre) @ a # b # post) = [] @ [(p # s1) @ a # b # s2] @ ss2"
        unfolding L sessions_of_Cons_Cons R' using True Nil by simp
      moreover have "concat [] @ (p # s1) = p # pre" using P Nil by simp
      ultimately show ?thesis using Q by blast
    next
      case (Cons u us)
      have "sessions_of ((p # pre) @ a # b # post) = ((p # u) # us) @ [s1 @ a # b # s2] @ ss2"
        unfolding L sessions_of_Cons_Cons R' using True Cons by simp
      moreover have "concat ((p # u) # us) @ s1 = p # pre" using P Cons by simp
      ultimately show ?thesis using Q by blast
    qed
  qed
qed


lemma sessions_of_split:
  "real_of_int MAX_GAP_MINUTES < time_diff a b \<Longrightarrow>
   \<exists>ss1 s1 s2 ss2. sessions_of (pre @ a # b # post) = ss1 @ [s1 @ [a], b # s2] @ ss2
      \<and> concat ss1 @ s1 = pre \<and> s2 @ concat ss2 = post"
proof (induction pre)
  case Nil
  obtain t ts where R: "sessions_from b post = (b # t) # ts" using sessions_from_shape by blast
  from concat_sessions_from[of b post] have T: "t @ concat ts = post" unfolding R by simp
  have E: "sessions_of (a # b # post) = [a] # (b # t) # ts"
    using Nil R by (simp add: sessions_of_def)
  show ?case
    apply (rule exI[of _ "[]"], rule exI[of _ "[]"], rule exI[of _ t], rule exI[of _ ts])
    using E T by simp
next
  case (Cons p pre)
  from Cons.IH[OF Cons.prems] obtain ss1 s1 s2 ss2 where
    R: "sessions_of (pre @ a # b # post) = ss1 @ [s1 @ [a], b # s2] @ ss2"
    and P: "concat ss1 @ s1 = pre" and Q: "s2 @ concat ss2 = post" by blast
  obtain y ys where Y: "pre @ a # b # post = y # ys" by (cases pre) auto
  have L: "sessions_of ((p # pre) @ a # b # post) = sessions_of (p # y # ys)"
    using Y by simp
  have R': "sessions_of (y # ys) = ss1 @ [s1 @ [a], b # s2] @ ss2"
    using R unfolding Y .
  show ?case
  proof (cases "time_diff p y \<le> real_of_int MAX_GAP_MINUTES")
    case False
    have "sessions_of ((p # pre) @ a # b # post) = ([p] # ss1) @ [s1 @ [a], b # s2] @ ss2"
      unfolding L sessions_of_Cons_Cons R' using False by simp
    moreover have "concat ([p] # ss1) @ s1 = p # pre" using P by simp
    ultimately show ?thesis using Q by blast
  next
    case True
    show ?thesis
    proof (cases ss1)
      case Nil
      have "sessions_of ((p # pre) @ a # b # post) = [] @ [(p # s1) @ [a], b # s2] @ ss2"
        unfolding L sessions_of_Cons_Cons R' using True Nil by simp
      moreover have "concat [] @ (p # s1) = p # pre" using P Nil by simp
      ultimately show ?thesis using Q by blast
    next
      case (Cons u us)
      have "sessions_of ((p # pre) @ a # b # post) = ((p # u) # us) @ [s1 @ [a], b # s2] @ ss2"
        unfolding L sessions_of_Cons_Cons R' using True Cons by simp
      moreover have "concat ((p # u) # us) @ s1 = p # pre" using P Cons by simp
      ultimately show ?thesis using Q by blast
    qed
  qed
qed

section \<open>Claims about the session grouper\<close>

text \<open>
  C1. For every list of commit records, and so for every non-empty one,
  \<open>group_commits_into_sessions\<close> returns (it raises nothing) a partition of its input:
  the concatenation of the returned sessions, in order, is exactly the input sequence,
  and no returned session is empty. Every commit is therefore in exactly one session,
  at its place.
\<close>

theorem group_commits_into_sessions_partition:
  "\<exists>sessions. group_commits_into_sessions commits = Inr sessions
      \<and> concat sessions = commits \<and> [] \<notin> set sessions"
  using group_commits_into_sessions_eq[of commits] concat_sessions_of[of commits]
    sessions_of_no_empty[of commits]
  by blast

text \<open>
  C9. For every one-element commit list, \<open>group_commits_into_sessions\<close> returns exactly
  one session, and that session holds exactly that one commit.
\<close>

theorem group_commits_into_sessions_single:
  "group_commits_into_sessions [c] = Inr [[c]]"
  by (simp add: group_commits_into_sessions_def)

text \<open>
  C2. For every commit list, and so for every chronologically ascending one,
  \<open>group_commits_into_sessions\<close> returns sessions such that the gap between any two
  consecutive commits of a session is at most \<open>MAX_GAP_MINUTES\<close> minutes, and the gap
  from the last commit of a session to the first commit of the next session is
  strictly greater than \<open>MAX_GAP_MINUTES\<close> minutes.
\<close>

theorem group_commits_into_sessions_gaps:
  "\<exists>sessions. group_commits_into_sessions commits = Inr sessions
      \<and> (\<forall>s \<in> set sessions. \<forall>i. Suc i < length s \<longrightarrow>
            time_diff (s ! i) (s ! Suc i) \<le> real_of_int MAX_GAP_MINUTES)
      \<and> (\<forall>j. Suc j < length sessions \<longrightarrow>
            real_of_int MAX_GAP_MINUTES < time_diff (last (sessions ! j)) (hd (sessions ! Suc j)))"
proof -
  have inner: "successively (\<lambda>a b. time_diff a b \<le> real_of_int MAX_GAP_MINUTES) s"
    if "s \<in> set (sessions_of commits)" for s
    using that by (cases commits) (auto simp: sessions_of_def dest: sessions_from_internal)
  have outer: "successively (\<lambda>s t. real_of_int MAX_GAP_MINUTES < time_diff (last s) (hd t))
      (sessions_of commits)"
    by (cases commits) (simp_all add: sessions_of_def sessions_from_boundary)
  show ?thesis
    using group_commits_into_sessions_eq[of commits] inner outer
    by (auto simp: successively_conv_nth)
qed

theorem group_commits_into_sessions_gaps_witness:
  "group_commits_into_sessions [commit_at 0 50, commit_at 1000 10, commit_at 10000 5]
     = Inr [[commit_at 0 50, commit_at 1000 10], [commit_at 10000 5]]
   \<and> time_diff (commit_at 0 50) (commit_at 1000 10) \<le> real_of_int MAX_GAP_MINUTES
   \<and> real_of_int MAX_GAP_MINUTES < time_diff (commit_at 1000 10) (commit_at 10000 5)"
proof -
  let ?cs = "[commit_at 0 50, commit_at 1000 10, commit_at 10000 5]"
  let ?ss = "[[commit_at 0 50, commit_at 1000 10], [commit_at 10000 5]]"
  have run: "group_commits_into_sessions ?cs = Inr ?ss"
    by (simp add: group_commits_into_sessions_def getitem_def time_diff_def total_seconds_def
        MAX_GAP_MINUTES_def commit_at_def)
  from group_commits_into_sessions_gaps[of ?cs] obtain sessions where
    s: "group_commits_into_sessions ?cs = Inr sessions"
    and inner: "\<forall>s \<in> set sessions. \<forall>i. Suc i < length s \<longrightarrow>
            time_diff (s ! i) (s ! Suc i) \<le> real_of_int MAX_GAP_MINUTES"
    and outer: "\<forall>j. Suc j < length sessions \<longrightarrow>
            real_of_int MAX_GAP_MINUTES < time_diff (last (sessions ! j)) (hd (sessions ! Suc j))"
    by blast
  from s run have eq: "sessions = ?ss" by simp
  from inner[unfolded eq, rule_format, of "[commit_at 0 50, commit_at 1000 10]" 0]
  have "time_diff (commit_at 0 50) (commit_at 1000 10) \<le> real_of_int MAX_GAP_MINUTES" by simp
  moreover from outer[unfolded eq, rule_format, of 0]
  have "real_of_int MAX_GAP_MINUTES < time_diff (commit_at 1000 10) (commit_at 10000 5)" by simp
  ultimately show ?thesis using run by simp
qed

text \<open>
  C6. The comparison at the session boundary is inclusive. Take two consecutive commits
  \<open>a\<close>, \<open>b\<close> anywhere in a history \<open>pre @ a # b # post\<close>. When the gap from \<open>a\<close> to \<open>b\<close> is
  exactly \<open>MAX_GAP_MINUTES\<close> minutes, \<open>b\<close> follows \<open>a\<close> inside one returned session; when it
  is strictly greater, \<open>a\<close> ends a session and \<open>b\<close> starts the next one. The two
  equations on the concatenations say that the \<open>a\<close> and \<open>b\<close> of the returned sessions are
  the ones at that place of the history.
\<close>

theorem group_commits_into_sessions_boundary:
  "(time_diff a b = real_of_int MAX_GAP_MINUTES \<longrightarrow>
      (\<exists>ss1 s1 s2 ss2.
          group_commits_into_sessions (pre @ a # b # post) = Inr (ss1 @ [s1 @ a # b # s2] @ ss2)
          \<and> concat ss1 @ s1 = pre \<and> s2 @ concat ss2 = post))
   \<and> (real_of_int MAX_GAP_MINUTES < time_diff a b \<longrightarrow>
      (\<exists>ss1 s1 s2 ss2.
          group_commits_into_sessions (pre @ a # b # post) = Inr (ss1 @ [s1 @ [a], b # s2] @ ss2)
          \<and> concat ss1 @ s1 = pre \<and> s2 @ concat ss2 = post))"
  using sessions_of_join[of a b pre post] sessions_of_split[of a b pre post]
  by (simp add: group_commits_into_sessions_eq)

theorem group_commits_into_sessions_boundary_witness:
  "time_diff (commit_at 0 1) (commit_at 5400 1) = real_of_int MAX_GAP_MINUTES
   \<and> (\<exists>ss1 s1 s2 ss2.
          group_commits_into_sessions [commit_at 0 1, commit_at 5400 1] =
            Inr (ss1 @ [s1 @ commit_at 0 1 # commit_at 5400 1 # s2] @ ss2)
          \<and> concat ss1 @ s1 = [] \<and> s2 @ concat ss2 = [])
   \<and> real_of_int MAX_GAP_MINUTES < time_diff (commit_at 0 1) (commit_at 5401 1)
   \<and> (\<exists>ss1 s1 s2 ss2.
          group_commits_into_sessions [commit_at 0 1, commit_at 5401 1] =
            Inr (ss1 @ [s1 @ [commit_at 0 1], commit_at 5401 1 # s2] @ ss2)
          \<and> concat ss1 @ s1 = [] \<and> s2 @ concat ss2 = [])
   \<and> group_commits_into_sessions [commit_at 0 1, commit_at 5400 1] =
        Inr [[commit_at 0 1, commit_at 5400 1]]
   \<and> group_commits_into_sessions [commit_at 0 1, commit_at 5401 1] =
        Inr [[commit_at 0 1], [commit_at 5401 1]]"
proof -
  have joined: "group_commits_into_sessions [commit_at 0 1, commit_at 5400 1] =
        Inr [[commit_at 0 1, commit_at 5400 1]]"
    by (simp add: group_commits_into_sessions_def getitem_def time_diff_def total_seconds_def
        MAX_GAP_MINUTES_def commit_at_def)
  have parted: "group_commits_into_sessions [commit_at 0 1, commit_at 5401 1] =
        Inr [[commit_at 0 1], [commit_at 5401 1]]"
    by (simp add: group_commits_into_sessions_def getitem_def time_diff_def total_seconds_def
        MAX_GAP_MINUTES_def commit_at_def)
  have exact: "time_diff (commit_at 0 1) (commit_at 5400 1) = real_of_int MAX_GAP_MINUTES"
    by (simp add: time_diff_def total_seconds_def MAX_GAP_MINUTES_def commit_at_def)
  have above: "real_of_int MAX_GAP_MINUTES < time_diff (commit_at 0 1) (commit_at 5401 1)"
    by (simp add: time_diff_def total_seconds_def MAX_GAP_MINUTES_def commit_at_def)
  show ?thesis
    using group_commits_into_sessions_boundary[of "commit_at 0 1" "commit_at 5400 1" "[]" "[]"]
      group_commits_into_sessions_boundary[of "commit_at 0 1" "commit_at 5401 1" "[]" "[]"]
      exact above joined parted
    by simp
qed

section \<open>Claims about the time estimator\<close>

lemma getitem_first: "xs \<noteq> [] \<Longrightarrow> getitem xs 0 = Inr (hd xs)"
  by (cases xs) (simp_all add: getitem_def)

lemma getitem_last: "xs \<noteq> [] \<Longrightarrow> getitem xs (- 1) = Inr (last xs)"
  by (cases xs rule: rev_cases) (simp_all add: getitem_def nth_append)

lemma factor_converts: "\<not> float_overflows PRE_COMMIT_LINE_FACTOR"
  by (simp add: float_overflows_def PRE_COMMIT_LINE_FACTOR_def)

text \<open>
  On a non-empty session the three reads are in range, and the only exception left is
  the one of the conversion of the first commit's \<^verbatim>\<open>lines_changed\<close>.
\<close>

lemma estimate_session_time_nonempty:
  "session \<noteq> [] \<Longrightarrow>
   estimate_session_time session =
     (if float_overflows (lines_changed (hd session)) then Inl OverflowError
      else Inr (total_seconds (timestamp (last session) - timestamp (hd session)) / 60
                + real_of_int (lines_changed (hd session)) * TIME_PER_LINE_MINUTES
                    * real_of_int PRE_COMMIT_LINE_FACTOR))"
  by (simp add: estimate_session_time_def getitem_first getitem_last float_of_int_def
      factor_converts)

text \<open>
  C3, as the program has it. For every non-empty session whose first commit's
  \<open>lines_changed\<close> converts to a float (its absolute value is below \<open>2 ^ 1024 - 2 ^ 970\<close>),
  \<open>estimate_session_time\<close> returns exactly the time from the first commit to the last
  one, in minutes, plus the first commit's \<open>lines_changed\<close> times \<open>TIME_PER_LINE_MINUTES\<close>
  times \<open>PRE_COMMIT_LINE_FACTOR\<close>; for a session of one such commit the span is zero and
  the result is the second term alone. On a non-empty session whose first commit's
  \<open>lines_changed\<close> does not convert, it raises \<^verbatim>\<open>OverflowError\<close>.
\<close>

theorem estimate_session_time_formula:
  "(session \<noteq> [] \<and> \<not> float_overflows (lines_changed (hd session)) \<longrightarrow>
      estimate_session_time session =
        Inr (total_seconds (timestamp (last session) - timestamp (hd session)) / 60
             + real_of_int (lines_changed (hd session)) * TIME_PER_LINE_MINUTES
                 * real_of_int PRE_COMMIT_LINE_FACTOR))
   \<and> (session \<noteq> [] \<and> float_overflows (lines_changed (hd session)) \<longrightarrow>
      estimate_session_time session = Inl OverflowError)
   \<and> (\<not> float_overflows (lines_changed c) \<longrightarrow>
      estimate_session_time [c] =
        Inr (real_of_int (lines_changed c) * TIME_PER_LINE_MINUTES
               * real_of_int PRE_COMMIT_LINE_FACTOR))"
  using estimate_session_time_nonempty[of session] estimate_session_time_nonempty[of "[c]"]
  by (simp add: total_seconds_def)

theorem estimate_session_time_formula_witness:
  "[commit_at 0 50, commit_at 1000 10] \<noteq> []
   \<and> \<not> float_overflows (lines_changed (hd [commit_at 0 50, commit_at 1000 10]))
   \<and> estimate_session_time [commit_at 0 50, commit_at 1000 10] = Inr (53 / 3)
   \<and> \<not> float_overflows (lines_changed (commit_at 10000 5))
   \<and> estimate_session_time [commit_at 10000 5] = Inr (1 / 10)
   \<and> [commit_at 7 (2 ^ 1100), commit_at 8 1] \<noteq> []
   \<and> float_overflows (lines_changed (hd [commit_at 7 (2 ^ 1100), commit_at 8 1]))
   \<and> estimate_session_time [commit_at 7 (2 ^ 1100), commit_at 8 1] = Inl OverflowError"
  using estimate_session_time_formula[of "[commit_at 0 50, commit_at 1000 10]" "commit_at 10000 5"]
    estimate_session_time_formula[of "[commit_at 7 (2 ^ 1100), commit_at 8 1]" "commit_at 10000 5"]
  by (simp add: commit_at_def total_seconds_def float_overflows_def
      TIME_PER_LINE_MINUTES_def PRE_COMMIT_LINE_FACTOR_def)

text \<open>
  C3 as stated fails: the session of one commit whose \<open>lines_changed\<close> is \<open>10 ^ 400\<close> is
  not empty, and \<open>estimate_session_time\<close> raises \<^verbatim>\<open>OverflowError\<close> on it where the claim
  has it return the value of the formula.
\<close>

theorem estimate_session_time_formula_counterexample:
  "[commit_at 0 (10 ^ 400)] \<noteq> []
   \<and> estimate_session_time [commit_at 0 (10 ^ 400)] = Inl OverflowError"
  by (simp add: estimate_session_time_def getitem_def float_of_int_def float_overflows_def
      commit_at_def)

text \<open>
  C7, as the program has it. For every non-empty session whose commits are in ascending
  order of timestamp, whose \<open>lines_changed\<close> are not negative, and whose first commit's
  \<open>lines_changed\<close> converts to a float (it is below \<open>2 ^ 1024 - 2 ^ 970\<close>),
  \<open>estimate_session_time\<close> returns a duration that is not negative.
\<close>

theorem estimate_session_time_nonneg:
  assumes "session \<noteq> []"
    and "sorted (map timestamp session)"
    and "\<forall>c \<in> set session. 0 \<le> lines_changed c"
    and "\<not> float_overflows (lines_changed (hd session))"
  shows "\<exists>t. estimate_session_time session = Inr t \<and> 0 \<le> t"
proof -
  from assms(1) have "hd session \<in> set session" by simp
  have "timestamp (hd session) \<le> timestamp (last session)"
  proof (cases session)
    case Nil
    with assms(1) show ?thesis by simp
  next
    case (Cons c cs)
    with assms(2) show ?thesis by (cases "cs = []") auto
  qed
  then have "0 \<le> total_seconds (timestamp (last session) - timestamp (hd session)) / 60"
    by (simp add: total_seconds_def)
  moreover have "0 \<le> real_of_int (lines_changed (hd session)) * TIME_PER_LINE_MINUTES
              * real_of_int PRE_COMMIT_LINE_FACTOR"
    using assms(3) \<open>hd session \<in> set session\<close>
    by (simp add: TIME_PER_LINE_MINUTES_def PRE_COMMIT_LINE_FACTOR_def)
  ultimately show ?thesis
    using estimate_session_time_nonempty[OF assms(1)] assms(4) by simp
qed

theorem estimate_session_time_nonneg_witness:
  "[commit_at 0 50, commit_at 1000 10] \<noteq> []
   \<and> sorted (map timestamp [commit_at 0 50, commit_at 1000 10])
   \<and> 0 \<le> lines_changed (commit_at 0 50) \<and> 0 \<le> lines_changed (commit_at 1000 10)
   \<and> \<not> float_overflows (lines_changed (hd [commit_at 0 50, commit_at 1000 10]))
   \<and> (\<exists>t. estimate_session_time [commit_at 0 50, commit_at 1000 10] = Inr t \<and> 0 \<le> t)"
  using estimate_session_time_nonneg[of "[commit_at 0 50, commit_at 1000 10]"]
  by (simp add: commit_at_def float_overflows_def)

text \<open>
  C7 as stated fails: the session of the two commits below is not empty, its timestamps
  ascend and its \<open>lines_changed\<close> are not negative, and \<open>estimate_session_time\<close> raises
  \<^verbatim>\<open>OverflowError\<close> on it: it returns no duration.
\<close>

theorem estimate_session_time_nonneg_counterexample:
  "[commit_at 0 (10 ^ 400), commit_at 60 0] \<noteq> []
   \<and> sorted (map timestamp [commit_at 0 (10 ^ 400), commit_at 60 0])
   \<and> 0 \<le> lines_changed (commit_at 0 (10 ^ 400)) \<and> 0 \<le> lines_changed (commit_at 60 0)
   \<and> estimate_session_time [commit_at 0 (10 ^ 400), commit_at 60 0] = Inl OverflowError"
  by (simp add: estimate_session_time_def getitem_def float_of_int_def float_overflows_def
      commit_at_def)

text \<open>
  C10, as the program has it. \<open>estimate_session_time\<close> of the empty session returns 0
  and raises nothing. With the guard of line 105 the reads \<^verbatim>\<open>session[0]\<close> and
  \<^verbatim>\<open>session[-1]\<close> are never out of range, so no session makes the function raise
  \<^verbatim>\<open>IndexError\<close>. The function is not total: it raises, and then \<^verbatim>\<open>OverflowError\<close>,
  exactly on the non-empty sessions whose first commit's \<open>lines_changed\<close> does not
  convert to a float, and it returns a value on every other session.
\<close>

theorem estimate_session_time_empty:
  "estimate_session_time [] = Inr 0
   \<and> (\<forall>session e. (estimate_session_time session = Inl e) =
          (session \<noteq> [] \<and> float_overflows (lines_changed (hd session)) \<and> e = OverflowError))"
proof -
  have "(estimate_session_time session = Inl e) =
          (session \<noteq> [] \<and> float_overflows (lines_changed (hd session)) \<and> e = OverflowError)"
    for session e
  proof (cases "session = []")
    case True
    then show ?thesis by (simp add: estimate_session_time_def)
  next
    case False
    then show ?thesis using estimate_session_time_nonempty[OF False] by auto
  qed
  then show ?thesis by (simp add: estimate_session_time_def)
qed

text \<open>
  C10 as stated fails: the function is not total over all session lists. On the session
  of one commit whose \<open>lines_changed\<close> is \<open>2 ^ 1024 - 2 ^ 970\<close>, the first integer that
  does not convert to a float, it raises \<^verbatim>\<open>OverflowError\<close>.
\<close>

theorem estimate_session_time_total_counterexample:
  "estimate_session_time [commit_at 5 (2 ^ 1024 - 2 ^ 970)] = Inl OverflowError"
  by (simp add: estimate_session_time_def getitem_def float_of_int_def float_overflows_def
      commit_at_def)

section \<open>The example output, evaluated\<close>

text \<open>The character classes, for evaluating the examples.\<close>

lemmas char_class_defs = isspace_def is_decimal_def is_digit_char_def is_hex_def

lemma example_stdout_lines:
  "str_split (CHR 0x0A) (str_strip example_stdout) =
     [''0 a'', numstat_line ''50'' ''0'' ''x'',
      ''1000 a'', numstat_line ''4'' ''6'' ''x'',
      ''10000 a'', numstat_line ''5'' ''0'' ''x'']"
  by (simp add: example_stdout_def numstat_line_def str_strip_def isspace_def)

lemma example_commit_line:
  "parse_line 4300 fromtimestamp_utc ''0 a'' ([], None) = Inr ([commit_at 0 0], Some 0)"
  "parse_line 4300 fromtimestamp_utc ''1000 a'' ([commit_at 0 50], Some 0)
     = Inr ([commit_at 0 50, commit_at 1000 0], Some 1)"
  "parse_line 4300 fromtimestamp_utc ''10000 a'' ([commit_at 0 50, commit_at 1000 10], Some 1)
     = Inr ([commit_at 0 50, commit_at 1000 10, commit_at 10000 0], Some 2)"
  by (simp_all add: parse_line_def match_time_hash_def char_class_defs py_int_def over_limit_def
      decimal_value_def digit_value_def fromtimestamp_utc_def commit_at_def)

lemma example_statistics_line:
  "parse_line 4300 fromtimestamp_utc (numstat_line ''50'' ''0'' ''x'')
     ([commit_at 0 0], Some 0) = Inr ([commit_at 0 50], Some 0)"
  "parse_line 4300 fromtimestamp_utc (numstat_line ''4'' ''6'' ''x'')
     ([commit_at 0 50, commit_at 1000 0], Some 1)
     = Inr ([commit_at 0 50, commit_at 1000 10], Some 1)"
  "parse_line 4300 fromtimestamp_utc (numstat_line ''5'' ''0'' ''x'')
     ([commit_at 0 50, commit_at 1000 10, commit_at 10000 0], Some 2)
     = Inr ([commit_at 0 50, commit_at 1000 10, commit_at 10000 5], Some 2)"
  by (simp_all add: numstat_line_def parse_line_def match_time_hash_def char_class_defs
      str_strip_def added_removed_def read_counts_def isdigit_def py_int_def over_limit_def
      decimal_value_def digit_value_def commit_at_def)

lemma example_commits:
  "get_git_commit_data 4300 fromtimestamp_utc (Inr example_stdout) =
     Inr [commit_at 0 50, commit_at 1000 10, commit_at 10000 5]"
  using example_commit_line example_statistics_line
  by (simp add: get_git_commit_data_def example_stdout_lines numstat_line_def)

section \<open>Claims about the history extractor\<close>

lemma decimal_is_digit: "list_all is_decimal s \<Longrightarrow> list_all is_digit_char s"
  by (induction s) (auto simp: is_digit_char_def)

text \<open>The handler of line 60 catches everything \<^verbatim>\<open>int\<close> raises: the \<^verbatim>\<open>try\<close> never fails.\<close>

lemma added_removed_line_count:
  "\<exists>added removed. added_removed max_str_digits a r = Inr (added, removed)
      \<and> added + removed = line_count max_str_digits a r"
  by (auto simp: added_removed_def read_counts_def py_int_def line_count_def int_rejects_def
      isdigit_def dest: decimal_is_digit)

text \<open>
  With the default limit of 4300 digits, a count of 4301 digits makes the whole line
  count zero, the other field included; without a limit it counts its value.
\<close>

lemma added_removed_over_limit:
  "added_removed 4300 (replicate 4301 (CHR ''1'')) ''5'' = Inr (0, 0)"
  "line_count 4300 (replicate 4301 (CHR ''1'')) ''5'' = 0"
  "line_count 0 (replicate 4301 (CHR ''1'')) ''5'' = decimal_value (replicate 4301 (CHR ''1'')) + 5"
  by (simp_all add: added_removed_def read_counts_def py_int_def line_count_def int_rejects_def
      over_limit_def isdigit_def list_all_iff char_class_defs decimal_value_def digit_value_def)

lemma three_or_not:
  obtains a r p where "xs = [a, r, p]" | "length xs \<noteq> 3"
proof (cases "length xs = 3")
  case True
  then obtain a r p where "xs = [a, r, p]"
    by (metis length_0_conv length_Suc_conv numeral_3_eq_3)
  then show ?thesis using that by blast
next
  case False
  then show ?thesis using that by blast
qed

lemma case_not_three:
  "length xs \<noteq> 3 \<Longrightarrow> (case xs of [a, r, p] \<Rightarrow> f a r p | _ \<Rightarrow> d) = d"
  by (auto split: list.splits)

lemma parse_line_other:
  assumes "match_time_hash line = None"
    and "length (str_split (CHR 0x09) (str_strip line)) \<noteq> 3 \<or> cur = None"
  shows "parse_line max_str_digits fromtimestamp line (commits, cur) = Inr (commits, cur)"
proof (cases "length (str_split (CHR 0x09) (str_strip line)) \<noteq> 3")
  case True
  then show ?thesis using assms(1) by (simp add: parse_line_def case_not_three)
next
  case False
  with assms(2) have "cur = None" by simp
  then show ?thesis using assms(1) by (simp add: parse_line_def split: list.splits)
qed

lemma parse_line_three:
  assumes "match_time_hash line = None"
    and "str_split (CHR 0x09) (str_strip line) = [a, r, p]" and "cur = Some k"
  shows "parse_line max_str_digits fromtimestamp line (commits, cur) =
             Inr (commits[k := (commits ! k)
                    \<lparr>lines_changed := lines_changed (commits ! k) + line_count max_str_digits a r\<rparr>],
                  cur)"
proof -
  obtain added removed where "added_removed max_str_digits a r = Inr (added, removed)"
      "added + removed = line_count max_str_digits a r"
    using added_removed_line_count by blast
  then show ?thesis using assms by (simp add: parse_line_def)
qed

text \<open>
  C4, as the program has it. A line that is not a commit line never raises an error.
  When it has exactly three tab-separated fields and a commit is current, it adds
  \<open>line_count max_str_digits added_str removed_str\<close> to that commit's \<^verbatim>\<open>lines_changed\<close>:
  each count field is read on its own, a field of decimal digits that \<^verbatim>\<open>int\<close> accepts
  counts its value and a field that is not a string of digits (the placeholder \<^verbatim>\<open>-\<close> of a
  binary file) counts zero, so the line adds zero when both fields are non-numeric and
  the value of the numeric field when only one is; the line adds zero as a whole only
  where \<^verbatim>\<open>int\<close> raises, on a field that \<^verbatim>\<open>isdigit\<close> accepts and that has a digit that is not
  decimal or more digits than the interpreter's limit. Every other line (not three
  fields, or no commit yet) leaves the state as it is.
\<close>

theorem parse_line_statistics:
  assumes "match_time_hash line = None"
  shows "(\<exists>st'. parse_line max_str_digits fromtimestamp line (commits, cur) = Inr st')
     \<and> (\<forall>a r p k. str_split (CHR 0x09) (str_strip line) = [a, r, p] \<and> cur = Some k \<longrightarrow>
           parse_line max_str_digits fromtimestamp line (commits, cur) =
             Inr (commits[k := (commits ! k)
                    \<lparr>lines_changed :=
                       lines_changed (commits ! k) + line_count max_str_digits a r\<rparr>], cur))
     \<and> (length (str_split (CHR 0x09) (str_strip line)) \<noteq> 3 \<or> cur = None \<longrightarrow>
           parse_line max_str_digits fromtimestamp line (commits, cur) = Inr (commits, cur))"
proof (intro conjI allI impI)
  show "\<exists>st'. parse_line max_str_digits fromtimestamp line (commits, cur) = Inr st'"
  proof (cases "str_split (CHR 0x09) (str_strip line)" rule: three_or_not)
    case (1 a r p)
    show ?thesis
    proof (cases cur)
      case None
      then show ?thesis using parse_line_other[OF assms, of cur] by simp
    next
      case (Some k)
      then show ?thesis using parse_line_three[OF assms 1] by simp
    qed
  next
    case 2
    then show ?thesis using parse_line_other[OF assms, of cur] by simp
  qed
next
  fix a r p k
  assume "str_split (CHR 0x09) (str_strip line) = [a, r, p] \<and> cur = Some k"
  then show "parse_line max_str_digits fromtimestamp line (commits, cur) =
             Inr (commits[k := (commits ! k)
                    \<lparr>lines_changed :=
                       lines_changed (commits ! k) + line_count max_str_digits a r\<rparr>], cur)"
    using parse_line_three[OF assms] by blast
next
  assume "length (str_split (CHR 0x09) (str_strip line)) \<noteq> 3 \<or> cur = None"
  then show "parse_line max_str_digits fromtimestamp line (commits, cur) = Inr (commits, cur)"
    using parse_line_other[OF assms] by blast
qed

theorem parse_line_statistics_witness:
  "match_time_hash (numstat_line ''-'' ''-'' ''binary.png'') = None
   \<and> parse_line 4300 fromtimestamp_utc (numstat_line ''-'' ''-'' ''binary.png'')
         ([commit_at 0 7], Some 0) = Inr ([commit_at 0 7], Some 0)
   \<and> match_time_hash (numstat_line ''4'' ''2'' ''f'') = None
   \<and> parse_line 4300 fromtimestamp_utc (numstat_line ''4'' ''2'' ''f'')
         ([commit_at 0 7], Some 0) = Inr ([commit_at 0 13], Some 0)
   \<and> match_time_hash ''not a statistics line'' = None
   \<and> parse_line 4300 fromtimestamp_utc ''not a statistics line'' ([commit_at 0 7], Some 0)
         = Inr ([commit_at 0 7], Some 0)"
proof -
  let ?binary = "numstat_line ''-'' ''-'' ''binary.png''"
  let ?text = "numstat_line ''4'' ''2'' ''f''"
  let ?other = "''not a statistics line''"
  have m1: "match_time_hash ?binary = None"
    by (simp add: numstat_line_def match_time_hash_def char_class_defs)
  have f1: "str_split (CHR 0x09) (str_strip ?binary) = [''-'', ''-'', ''binary.png'']"
    by (simp add: numstat_line_def str_strip_def isspace_def)
  have c1: "line_count 4300 ''-'' ''-'' = 0"
    by (simp add: line_count_def int_rejects_def isdigit_def char_class_defs)
  have m2: "match_time_hash ?text = None"
    by (simp add: numstat_line_def match_time_hash_def char_class_defs)
  have f2: "str_split (CHR 0x09) (str_strip ?text) = [''4'', ''2'', ''f'']"
    by (simp add: numstat_line_def str_strip_def isspace_def)
  have c2: "line_count 4300 ''4'' ''2'' = 6"
    by (simp add: line_count_def int_rejects_def over_limit_def isdigit_def char_class_defs
        decimal_value_def digit_value_def)
  have m3: "match_time_hash ?other = None"
    by (simp add: match_time_hash_def char_class_defs)
  have f3: "length (str_split (CHR 0x09) (str_strip ?other)) \<noteq> 3"
    by (simp add: str_strip_def isspace_def)
  from parse_line_statistics[OF m1, of 4300 fromtimestamp_utc "[commit_at 0 7]" "Some 0"] f1 c1
  have r1: "parse_line 4300 fromtimestamp_utc ?binary ([commit_at 0 7], Some 0)
      = Inr ([commit_at 0 7], Some 0)"
    by (simp add: commit_at_def)
  from parse_line_statistics[OF m2, of 4300 fromtimestamp_utc "[commit_at 0 7]" "Some 0"] f2 c2
  have r2: "parse_line 4300 fromtimestamp_utc ?text ([commit_at 0 7], Some 0)
      = Inr ([commit_at 0 13], Some 0)"
    by (simp add: commit_at_def)
  from parse_line_statistics[OF m3, of 4300 fromtimestamp_utc "[commit_at 0 7]" "Some 0"] f3
  have r3: "parse_line 4300 fromtimestamp_utc ?other ([commit_at 0 7], Some 0)
      = Inr ([commit_at 0 7], Some 0)"
    by simp
  from m1 r1 m2 r2 m3 r3 show ?thesis by simp
qed

text \<open>
  C4 as stated fails: on the line \<^verbatim>\<open>5<TAB>-<TAB>f\<close>, with a commit current whose
  \<^verbatim>\<open>lines_changed\<close> is 0, the removed field is not numeric and does not parse as an
  integer, and the line still adds 5 to \<^verbatim>\<open>lines_changed\<close>.
\<close>

theorem statistics_line_one_numeric_field_counterexample:
  "match_time_hash (numstat_line ''5'' ''-'' ''f'') = None
   \<and> str_split (CHR 0x09) (str_strip (numstat_line ''5'' ''-'' ''f'')) = [''5'', ''-'', ''f'']
   \<and> \<not> isdigit ''-'' \<and> py_int 4300 ''-'' = Inl ValueError
   \<and> parse_line 4300 fromtimestamp_utc (numstat_line ''5'' ''-'' ''f'') ([commit_at 0 0], Some 0)
       = Inr ([commit_at 0 5], Some 0)
   \<and> lines_changed (commit_at 0 0) = 0 \<and> lines_changed (commit_at 0 5) = 5"
proof -
  let ?line = "numstat_line ''5'' ''-'' ''f''"
  have m: "match_time_hash ?line = None"
    by (simp add: numstat_line_def match_time_hash_def char_class_defs)
  have f: "str_split (CHR 0x09) (str_strip ?line) = [''5'', ''-'', ''f'']"
    by (simp add: numstat_line_def str_strip_def isspace_def)
  have d: "\<not> isdigit ''-''" "py_int 4300 ''-'' = Inl ValueError"
    by (simp_all add: isdigit_def py_int_def char_class_defs)
  have a: "added_removed 4300 ''5'' ''-'' = Inr (5, 0)"
    by (simp add: added_removed_def read_counts_def isdigit_def py_int_def over_limit_def
        char_class_defs decimal_value_def digit_value_def)
  have p: "parse_line 4300 fromtimestamp_utc ?line ([commit_at 0 0], Some 0)
      = Inr ([commit_at 0 5], Some 0)"
    using m f a by (simp add: parse_line_def commit_at_def)
  have "lines_changed (commit_at 0 0) = 0" "lines_changed (commit_at 0 5) = 5"
    by (simp_all add: commit_at_def)
  with m f d p show ?thesis by simp
qed

section \<open>Claims about the program\<close>

text \<open>
  The loop of \<open>main\<close> when every estimate returns: the total grows by the sum of the
  estimates, and each session gives one call and one printed line, in order.
\<close>

lemma sessions_loop_sum:
  "map estimate_session_time sessions = map Inr ests \<Longrightarrow>
   sessions_loop i sessions total_minutes events =
     (Inr (total_minutes + sum_list ests),
      events @ concat (map (\<lambda>(k, session, t).
                  [Call_estimate_session_time, Print (Session_line k (length session) t)])
                (zip [i ..< i + length sessions] (zip sessions ests))))"
proof (induction sessions arbitrary: ests i total_minutes events)
  case Nil
  then show ?case by simp
next
  case (Cons session rest)
  from Cons.prems obtain t ests' where ests: "ests = t # ests'"
    and t: "estimate_session_time session = Inr t"
    and rest: "map estimate_session_time rest = map Inr ests'"
    by (cases ests) auto
  have upt: "[i ..< i + length (session # rest)] = i # [Suc i ..< Suc i + length rest]"
    using upt_conv_Cons[of i "i + length (session # rest)"] by simp
  show ?case
    unfolding upt ests
    using t Cons.IH[OF rest, of "Suc i" "total_minutes + t"
      "events @ [Call_estimate_session_time, Print (Session_line i (length session) t)]"]
    by (simp add: add.assoc)
qed

text \<open>The loop when an estimate raises: it ends with an exception.\<close>

lemma sessions_loop_raises:
  "session \<in> set sessions \<Longrightarrow> estimate_session_time session = Inl e \<Longrightarrow>
   \<exists>e' events'. sessions_loop i sessions total_minutes events = (Inl e', events')"
proof (induction sessions arbitrary: i total_minutes events)
  case Nil
  then show ?case by simp
next
  case (Cons s rest)
  show ?case
  proof (cases "estimate_session_time s")
    case (Inl e0)
    then show ?thesis by simp
  next
    case (Inr t)
    with Cons.prems have "session \<in> set rest" by auto
    from Cons.IH[OF this Cons.prems(2)] Inr show ?thesis by simp
  qed
qed

text \<open>
  C8. When the extractor returns an empty commit list, the program prints
  \<^verbatim>\<open>No commit data found.\<close> and stops normally: after the first message and the call of
  the extractor there is no other event, so no grouping and no estimation is performed,
  and none of the commit-count, session-count, per-session or summary lines is printed.
\<close>

theorem main_no_commits:
  "get_git_commit_data max_str_digits fromtimestamp run_result = Inr [] \<Longrightarrow>
   main max_str_digits fromtimestamp run_result =
     ([Print (Text ''Gathering commit data...''), Call_get_git_commit_data,
       Print (Text ''No commit data found.'')], None)"
  by (simp add: main_def)

theorem main_no_commits_witness:
  "get_git_commit_data 4300 fromtimestamp_utc (Inr []) = Inr []
   \<and> main 4300 fromtimestamp_utc (Inr []) =
     ([Print (Text ''Gathering commit data...''), Call_get_git_commit_data,
       Print (Text ''No commit data found.'')], None)"
proof -
  have "get_git_commit_data 4300 fromtimestamp_utc (Inr []) = Inr []"
    by (simp add: get_git_commit_data_def str_strip_def parse_line_def match_time_hash_def)
  then show ?thesis using main_no_commits[of 4300 fromtimestamp_utc "Inr []"] by simp
qed

text \<open>
  C5. For every list of sessions on which the estimates return, the loop of \<open>main\<close>
  ends with \<open>total_minutes\<close> increased by the sum of \<open>estimate_session_time\<close> over the
  sessions, each session taken once and in order. So, when the extractor returns a
  non-empty commit list and the estimates of its sessions return, \<open>main\<close> estimates each
  session of the grouper once, prints its line, and the hours it reports are the sum of
  the estimates divided by 60. (When an estimate raises there is no total: see
  \<open>main_estimate_raises\<close> below.)
\<close>

theorem main_total:
  "(map estimate_session_time sessions = map Inr ests \<longrightarrow>
       fst (sessions_loop i sessions total_minutes events) = Inr (total_minutes + sum_list ests))
   \<and> (get_git_commit_data max_str_digits fromtimestamp run_result = Inr commits
        \<and> commits \<noteq> [] \<longrightarrow>
        (\<exists>ss. group_commits_into_sessions commits = Inr ss
           \<and> (\<forall>ests. map estimate_session_time ss = map Inr ests \<longrightarrow>
                main max_str_digits fromtimestamp run_result =
                  ([Print (Text ''Gathering commit data...''), Call_get_git_commit_data,
                    Print (Found_commits (length commits)), Call_group_commits_into_sessions,
                    Print (Grouped_into (length ss))]
                   @ concat (map (\<lambda>(k, session, t).
                         [Call_estimate_session_time,
                          Print (Session_line k (length session) t)])
                       (zip [1 ..< 1 + length ss] (zip ss ests)))
                   @ [Print (Text (CHR 0x0A # ''--- Summary ---'')),
                      Print (Total_hours (sum_list ests / 60))], None))))"
proof (intro conjI impI)
  assume "map estimate_session_time sessions = map Inr ests"
  then show "fst (sessions_loop i sessions total_minutes events)
      = Inr (total_minutes + sum_list ests)"
    using sessions_loop_sum[of sessions ests i total_minutes events] by simp
next
  assume a: "get_git_commit_data max_str_digits fromtimestamp run_result = Inr commits
      \<and> commits \<noteq> []"
  let ?ss = "sessions_of commits"
  have ss: "group_commits_into_sessions commits = Inr ?ss"
    by (rule group_commits_into_sessions_eq)
  have "main max_str_digits fromtimestamp run_result =
          ([Print (Text ''Gathering commit data...''), Call_get_git_commit_data,
            Print (Found_commits (length commits)), Call_group_commits_into_sessions,
            Print (Grouped_into (length ?ss))]
           @ concat (map (\<lambda>(k, session, t).
                 [Call_estimate_session_time, Print (Session_line k (length session) t)])
               (zip [1 ..< 1 + length ?ss] (zip ?ss ests)))
           @ [Print (Text (CHR 0x0A # ''--- Summary ---'')),
              Print (Total_hours (sum_list ests / 60))], None)"
    if "map estimate_session_time ?ss = map Inr ests" for ests
    using a ss sessions_loop_sum[OF that, of 1 0
        "[Print (Text ''Gathering commit data...''), Call_get_git_commit_data,
          Print (Found_commits (length commits)), Call_group_commits_into_sessions,
          Print (Grouped_into (length ?ss))]"]
    by (simp add: main_def)
  with ss show "\<exists>ss. group_commits_into_sessions commits = Inr ss
           \<and> (\<forall>ests. map estimate_session_time ss = map Inr ests \<longrightarrow>
                main max_str_digits fromtimestamp run_result =
                  ([Print (Text ''Gathering commit data...''), Call_get_git_commit_data,
                    Print (Found_commits (length commits)), Call_group_commits_into_sessions,
                    Print (Grouped_into (length ss))]
                   @ concat (map (\<lambda>(k, session, t).
                         [Call_estimate_session_time,
                          Print (Session_line k (length session) t)])
                       (zip [1 ..< 1 + length ss] (zip ss ests)))
                   @ [Print (Text (CHR 0x0A # ''--- Summary ---'')),
                      Print (Total_hours (sum_list ests / 60))], None))"
    by blast
qed

theorem main_total_witness:
  "get_git_commit_data 4300 fromtimestamp_utc (Inr example_stdout) =
     Inr [commit_at 0 50, commit_at 1000 10, commit_at 10000 5]
   \<and> [commit_at 0 50, commit_at 1000 10, commit_at 10000 5] \<noteq> []
   \<and> map estimate_session_time [[commit_at 0 50, commit_at 1000 10], [commit_at 10000 5]]
       = map Inr [53 / 3, 1 / 10]
   \<and> fst (sessions_loop 1 [[commit_at 0 50, commit_at 1000 10], [commit_at 10000 5]] 0 [])
       = Inr (53 / 3 + 1 / 10)
   \<and> main 4300 fromtimestamp_utc (Inr example_stdout) =
       ([Print (Text ''Gathering commit data...''), Call_get_git_commit_data,
         Print (Found_commits 3), Call_group_commits_into_sessions,
         Print (Grouped_into 2),
         Call_estimate_session_time, Print (Session_line 1 2 (53 / 3)),
         Call_estimate_session_time, Print (Session_line 2 1 (1 / 10)),
         Print (Text (CHR 0x0A # ''--- Summary ---'')),
         Print (Total_hours ((53 / 3 + 1 / 10) / 60))], None)"
proof -
  let ?cs = "[commit_at 0 50, commit_at 1000 10, commit_at 10000 5]"
  let ?ss = "[[commit_at 0 50, commit_at 1000 10], [commit_at 10000 5]]"
  have run: "group_commits_into_sessions ?cs = Inr ?ss"
    by (simp add: group_commits_into_sessions_def getitem_def time_diff_def total_seconds_def
        MAX_GAP_MINUTES_def commit_at_def)
  have est: "map estimate_session_time ?ss = map Inr [53 / 3, 1 / 10]"
    by (simp add: estimate_session_time_def getitem_def total_seconds_def commit_at_def
        float_of_int_def float_overflows_def TIME_PER_LINE_MINUTES_def
        PRE_COMMIT_LINE_FACTOR_def)
  note inst = main_total[of ?ss "[53 / 3, 1 / 10]" 1 0 "[]" 4300 fromtimestamp_utc
      "Inr example_stdout" ?cs]
  from inst est have loop: "fst (sessions_loop 1 ?ss 0 []) = Inr (53 / 3 + 1 / 10)"
    by simp
  from inst example_commits
  obtain ss where ss: "group_commits_into_sessions ?cs = Inr ss"
    and m: "\<forall>ests. map estimate_session_time ss = map Inr ests \<longrightarrow>
              main 4300 fromtimestamp_utc (Inr example_stdout) =
               ([Print (Text ''Gathering commit data...''), Call_get_git_commit_data,
                 Print (Found_commits (length ?cs)), Call_group_commits_into_sessions,
                 Print (Grouped_into (length ss))]
                @ concat (map (\<lambda>(k, session, t).
                      [Call_estimate_session_time, Print (Session_line k (length session) t)])
                    (zip [1 ..< 1 + length ss] (zip ss ests)))
                @ [Print (Text (CHR 0x0A # ''--- Summary ---'')),
                   Print (Total_hours (sum_list ests / 60))], None)"
    by auto
  from ss run have ss_eq: "ss = ?ss" by simp
  have upt: "[1 ..< 1 + length ?ss] = [1, 2]"
    by (simp add: upt_rec)
  from m[unfolded ss_eq, rule_format, OF est] show ?thesis
    using example_commits est loop unfolding upt by simp
qed

text \<open>
  The other branch: when the estimate of one of the sessions raises, \<open>main\<close> ends with
  an exception, and it has printed no summary.
\<close>

lemma main_estimate_raises:
  assumes "get_git_commit_data max_str_digits fromtimestamp run_result = Inr commits"
    and "commits \<noteq> []"
    and "group_commits_into_sessions commits = Inr ss"
    and "session \<in> set ss" and "estimate_session_time session = Inl e"
  shows "\<exists>e' events. main max_str_digits fromtimestamp run_result = (events, Some e')"
proof -
  from sessions_loop_raises[OF assms(4,5), of 1 0
      "[Print (Text ''Gathering commit data...''), Call_get_git_commit_data,
        Print (Found_commits (length commits)), Call_group_commits_into_sessions,
        Print (Grouped_into (length ss))]"]
  obtain e' events' where
    "sessions_loop 1 ss 0
       [Print (Text ''Gathering commit data...''), Call_get_git_commit_data,
        Print (Found_commits (length commits)), Call_group_commits_into_sessions,
        Print (Grouped_into (length ss))] = (Inl e', events')"
    by blast
  with assms(1,2,3) show ?thesis by (simp add: main_def)
qed

end
